theory Spec2Isabelle
  imports Complex_Main
begin

section \<open>Text\<close>

text \<open>
  Python strings are modelled as \<^typ>\<open>string\<close>, holding the UTF-8 bytes of the text (the
  encoding every output file is opened with). The escape character and the three block
  glyphs of \<^verbatim>\<open>pic_to_ansi.py\<close> are byte sequences.
\<close>

definition ESC :: char where
  "ESC = CHR 0x1B"

definition CSI :: string where
  "CSI = [ESC, CHR ''['']"

definition UPPER_HALF_BLOCK :: string where
  "UPPER_HALF_BLOCK = [CHR 0xE2, CHR 0x96, CHR 0x80]"

definition LOWER_HALF_BLOCK :: string where
  "LOWER_HALF_BLOCK = [CHR 0xE2, CHR 0x96, CHR 0x84]"

definition FULL_BLOCK :: string where
  "FULL_BLOCK = [CHR 0xE2, CHR 0x96, CHR 0x88]"

text \<open>The decimal text of an integer, as an f-string field \<^verbatim>\<open>{n}\<close> prints it.\<close>

definition digit_char :: "nat \<Rightarrow> char" where
  "digit_char d = ''0123456789'' ! d"

fun str_nat :: "nat \<Rightarrow> string" where
  "str_nat n = (if n < 10 then [digit_char n] else str_nat (n div 10) @ [digit_char (n mod 10)])"

declare str_nat.simps [simp del]

definition str_int :: "int \<Rightarrow> string" where
  "str_int i = (if i < 0 then CHR ''-'' # str_nat (nat (- i)) else str_nat (nat i))"

subsection \<open>Cell sequences\<close>

type_synonym rgb = "int \<times> int \<times> int"

definition ansi_fg_bg :: "rgb \<Rightarrow> rgb \<Rightarrow> bool \<Rightarrow> bool \<Rightarrow> string" where
  "ansi_fg_bg top_rgb bot_rgb use_upper use_csi =
     (case top_rgb of (rt, gt, bt) \<Rightarrow>
      case bot_rgb of (rb, gb, bb) \<Rightarrow>
        let ch = (if use_upper then UPPER_HALF_BLOCK else LOWER_HALF_BLOCK);
            pre = (if use_csi then CSI else ''['')
        in pre @ ''38;2;'' @ str_int rt @ '';'' @ str_int gt @ '';'' @ str_int bt @ ''m''
           @ pre @ ''48;2;'' @ str_int rb @ '';'' @ str_int gb @ '';'' @ str_int bb @ ''m''
           @ ch @ pre @ ''0m'')"

definition ansi_single :: "rgb \<Rightarrow> string \<Rightarrow> bool \<Rightarrow> string" where
  "ansi_single rgb_v char_v use_csi =
     (case rgb_v of (r, g, b) \<Rightarrow>
        let pre = (if use_csi then CSI else ''['')
        in pre @ ''38;2;'' @ str_int r @ '';'' @ str_int g @ '';'' @ str_int b @ ''m''
           @ char_v @ pre @ ''0m'')"

text \<open>
  The control sequences in the words of the output format: the escape prefix, the
  set-foreground and set-background true-colour sequences, and the reset sequence.
\<close>

definition escape_prefix :: "bool \<Rightarrow> string" where
  "escape_prefix use_csi = (if use_csi then [CHR 0x1B, CHR ''[''] else ''['')"

definition set_foreground :: "bool \<Rightarrow> rgb \<Rightarrow> string" where
  "set_foreground use_csi c =
     escape_prefix use_csi @ ''38;2;'' @ str_int (fst c) @ '';'' @ str_int (fst (snd c))
       @ '';'' @ str_int (snd (snd c)) @ ''m''"

definition set_background :: "bool \<Rightarrow> rgb \<Rightarrow> string" where
  "set_background use_csi c =
     escape_prefix use_csi @ ''48;2;'' @ str_int (fst c) @ '';'' @ str_int (fst (snd c))
       @ '';'' @ str_int (snd (snd c)) @ ''m''"

definition reset_sequence :: "bool \<Rightarrow> string" where
  "reset_sequence use_csi = escape_prefix use_csi @ ''0m''"

definition half_glyph :: "bool \<Rightarrow> string" where
  "half_glyph use_upper =
     (if use_upper then [CHR 0xE2, CHR 0x96, CHR 0x80] else [CHR 0xE2, CHR 0x96, CHR 0x84])"

subsection \<open>Escaping for a display statement\<close>

text \<open>
  \<^verbatim>\<open>str.replace(old, new)\<close> with a one-character \<^verbatim>\<open>old\<close>: every occurrence of the
  character is replaced, scanning from the left.
\<close>

definition replace_chr :: "char \<Rightarrow> string \<Rightarrow> string \<Rightarrow> string" where
  "replace_chr old new text = concat (map (\<lambda>c. if c = old then new else [c]) text)"

definition BACKSLASH :: char where
  "BACKSLASH = CHR 0x5C"

definition DQUOTE :: char where
  "DQUOTE = CHR 0x22"

definition escape_verilog_string :: "string \<Rightarrow> string" where
  "escape_verilog_string text =
     replace_chr DQUOTE [BACKSLASH, DQUOTE] (replace_chr BACKSLASH [BACKSLASH, BACKSLASH] text)"

definition display_statement :: "string \<Rightarrow> string" where
  "display_statement line = ''$display('' @ [DQUOTE] @ escape_verilog_string line @ [DQUOTE] @ '');''"

text \<open>The escaping in the words of the specification: one pass, character by character.\<close>

definition escape_char :: "char \<Rightarrow> string" where
  "escape_char c =
     (if c = BACKSLASH then [BACKSLASH, BACKSLASH]
      else if c = DQUOTE then [BACKSLASH, DQUOTE]
      else [c])"

text \<open>
  A reader of string literals: it is given the text that follows the opening quote and
  returns the characters the literal denotes together with the text after the closing
  quote, or \<open>None\<close> when the literal is not closed. A backslash takes the next character
  with it.
\<close>

fun read_literal :: "string \<Rightarrow> (string \<times> string) option" where
  "read_literal [] = None"
| "read_literal (c # cs) =
     (if c = DQUOTE then Some ([], cs)
      else if c = BACKSLASH then
        (case cs of
           [] \<Rightarrow> None
         | d # ds \<Rightarrow> map_option (\<lambda>(s, r). (d # s, r)) (read_literal ds))
      else map_option (\<lambda>(s, r). (c # s, r)) (read_literal cs))"

section \<open>Paths and the output format\<close>

text \<open>
  \<^verbatim>\<open>str.rfind\<close> of one character: the index of its last occurrence, or \<open>-1\<close>.
\<close>

fun rfind_from :: "char \<Rightarrow> string \<Rightarrow> nat \<Rightarrow> int \<Rightarrow> int" where
  "rfind_from c [] i found = found"
| "rfind_from c (x # xs) i found = rfind_from c xs (Suc i) (if x = c then int i else found)"

definition rfind :: "char \<Rightarrow> string \<Rightarrow> int" where
  "rfind c p = rfind_from c p 0 (- 1)"

text \<open>
  \<^verbatim>\<open>os.path.splitext\<close> as \<^verbatim>\<open>posixpath\<close> defines it (separator \<^verbatim>\<open>/\<close>, extension
  separator \<^verbatim>\<open>.\<close>): the extension starts at the last dot of the last path component,
  unless that component consists of leading dots only up to that dot. The loop walks
  from the start of the component to the dot and stops at the first other character.
\<close>

function has_name_before_dot :: "string \<Rightarrow> nat \<Rightarrow> nat \<Rightarrow> bool" where
  "has_name_before_dot p filenameIndex dotIndex =
     (if filenameIndex < dotIndex then
        (if take 1 (drop filenameIndex p) \<noteq> ''.'' then True
         else has_name_before_dot p (Suc filenameIndex) dotIndex)
      else False)"
  by pat_completeness auto
termination
  by (relation "measure (\<lambda>(p, filenameIndex, dotIndex). dotIndex - filenameIndex)") auto

declare has_name_before_dot.simps [simp del]

definition splitext :: "string \<Rightarrow> string \<times> string" where
  "splitext p =
     (let sepIndex = rfind (CHR ''/'') p;
          dotIndex = rfind (CHR ''.'') p
      in if dotIndex > sepIndex \<and> has_name_before_dot p (nat (sepIndex + 1)) (nat dotIndex)
         then (take (nat dotIndex) p, drop (nat dotIndex) p)
         else (p, []))"

definition basename :: "string \<Rightarrow> string" where
  "basename p = drop (nat (rfind (CHR ''/'') p + 1)) p"

text \<open>\<^verbatim>\<open>str.lower\<close> on the ASCII letters; every other byte is kept.\<close>

definition lower_chr :: "char \<Rightarrow> char" where
  "lower_chr c =
     (case map_of (zip ''ABCDEFGHIJKLMNOPQRSTUVWXYZ'' ''abcdefghijklmnopqrstuvwxyz'') c of
        Some l \<Rightarrow> l
      | None \<Rightarrow> c)"

definition lower :: "string \<Rightarrow> string" where
  "lower s = map lower_chr s"

definition VERILOG_EXTENSIONS :: "string set" where
  "VERILOG_EXTENSIONS = {''.sv'', ''.v'', ''.svh'', ''.vh''}"

text \<open>The truth value of \<^verbatim>\<open>if output_file:\<close> for a value that is \<^verbatim>\<open>None\<close> or a string.\<close>

definition truthy :: "string option \<Rightarrow> bool" where
  "truthy v = (case v of None \<Rightarrow> False | Some s \<Rightarrow> s \<noteq> [])"

definition resolve_output_format :: "string \<Rightarrow> string option \<Rightarrow> string" where
  "resolve_output_format output_format output_file =
     (if output_format \<noteq> ''auto'' then output_format
      else if truthy output_file
              \<and> lower (snd (splitext (the output_file))) \<in> VERILOG_EXTENSIONS
           then ''verilog''
           else ''ansi'')"

definition default_output_path :: "string \<Rightarrow> string \<Rightarrow> string" where
  "default_output_path image_path output_format =
     (let stem0 = fst (splitext (basename image_path));
          stem = (if stem0 \<noteq> [] then stem0 else ''output'');
          ext = (if output_format = ''verilog'' then ''.sv'' else ''.ans'')
      in stem @ ext)"

text \<open>
  The selection rule in the words of the specification: the extension of the output
  file, compared without regard to case, is one of the four listed.
\<close>

definition same_ignoring_case :: "string \<Rightarrow> string \<Rightarrow> bool" where
  "same_ignoring_case a b = (lower a = lower b)"

definition has_verilog_extension :: "string option \<Rightarrow> bool" where
  "has_verilog_extension output_file =
     (case output_file of
        None \<Rightarrow> False
      | Some f \<Rightarrow>
          (let e = snd (splitext f)
           in same_ignoring_case e ''.sv'' \<or> same_ignoring_case e ''.v''
              \<or> same_ignoring_case e ''.svh'' \<or> same_ignoring_case e ''.vh''))"

section \<open>Colour-space conversion\<close>

text \<open>
  The two conversions, one sample at a time (the source applies them to whole arrays).
  The source computes in 32-bit floating point; the definitions below carry out the same
  arithmetic over the reals. The clamp is \<^verbatim>\<open>np.clip\<close> and the cast to an unsigned byte
  truncates, which on the clamped range is the floor.
\<close>

definition srgb_to_linear :: "int \<Rightarrow> real" where
  "srgb_to_linear u8 =
     (let c = real_of_int u8 / 255
      in if c \<le> 0.04045 then c / 12.92 else ((c + 0.055) / 1.055) powr 2.4)"

definition linear_to_srgb :: "real \<Rightarrow> int" where
  "linear_to_srgb f =
     (let out = (if f \<le> 0.0031308 then 12.92 * f else 1.055 * (f powr (1 / 2.4)) - 0.055)
      in \<lfloor>min 255 (max 0 (out * 255 + 0.5))\<rfloor>)"

section \<open>Images and the imaging library\<close>

text \<open>
  An exception is a value carrying the text that \<^verbatim>\<open>str(e)\<close> yields. A computation that
  may raise returns \<open>Inl\<close> of the exception or \<open>Inr\<close> of its result; \<open>bindE\<close> runs the next
  step only after a result, as statement sequencing does.
\<close>

datatype exn = Exn string

fun message :: "exn \<Rightarrow> string" where
  "message (Exn s) = s"

definition bindE :: "exn + 'a \<Rightarrow> ('a \<Rightarrow> exn + 'b) \<Rightarrow> exn + 'b" where
  "bindE m f = (case m of Inl e \<Rightarrow> Inl e | Inr x \<Rightarrow> f x)"

fun mapE :: "('a \<Rightarrow> exn + 'b) \<Rightarrow> 'a list \<Rightarrow> exn + 'b list" where
  "mapE f [] = Inr []"
| "mapE f (x # xs) = bindE (f x) (\<lambda>y. bindE (mapE f xs) (\<lambda>ys. Inr (y # ys)))"

text \<open>
  An RGB image is the list of its rows, a row the list of its pixels; a mode-F image (one
  channel of floating-point samples) is the same with real samples.
\<close>

type_synonym image = "rgb list list"

type_synonym plane = "real list list"

definition size_of :: "'a list list \<Rightarrow> int \<times> int" where
  "size_of im = (case im of [] \<Rightarrow> (0, 0) | r # _ \<Rightarrow> (int (length r), int (length im)))"

definition getpixel :: "image \<Rightarrow> nat \<Rightarrow> nat \<Rightarrow> exn + rgb" where
  "getpixel im x y =
     (if y < length im \<and> x < length (im ! y) then Inr (im ! y ! x)
      else Inl (Exn ''image index out of range''))"

definition crop :: "image \<Rightarrow> nat \<Rightarrow> nat \<Rightarrow> image" where
  "crop im w h = map (take w) (take h im)"

datatype resampling = LANCZOS | BICUBIC

text \<open>
  What the program takes from outside: the file system and the imaging library. Each
  operation is a parameter of the model; an operation that can raise returns a sum.
  \<open>resample_rgb\<close> and \<open>resample_f\<close> stand for the resampling kernels of the library on an
  image whose size changes, \<open>image_open\<close> for \<^verbatim>\<open>Image.open(path).convert("RGB")\<close>,
  \<open>file_open\<close>, \<open>file_write\<close> and \<open>file_close\<close> for opening the output file for writing, for
  one \<^verbatim>\<open>f.write\<close> and for the close at the end of the \<^verbatim>\<open>with\<close> block, where buffered
  text reaches the file (\<open>None\<close>: no exception), \<open>repr_float\<close> for the text an f-string
  gives a float.
\<close>

record world =
  path_exists :: "string \<Rightarrow> bool"
  image_open :: "string \<Rightarrow> exn + image"
  resample_rgb :: "resampling \<Rightarrow> int \<times> int \<Rightarrow> image \<Rightarrow> exn + image"
  resample_f :: "resampling \<Rightarrow> int \<times> int \<Rightarrow> plane \<Rightarrow> exn + plane"
  median_filter :: "int \<Rightarrow> image \<Rightarrow> exn + image"
  color_enhance :: "real \<Rightarrow> image \<Rightarrow> exn + image"
  contrast_enhance :: "real \<Rightarrow> image \<Rightarrow> exn + image"
  unsharp_mask :: "real \<Rightarrow> int \<Rightarrow> int \<Rightarrow> image \<Rightarrow> exn + image"
  file_open :: "string \<Rightarrow> exn option"
  file_write :: "string \<Rightarrow> string \<Rightarrow> exn option"
  file_close :: "string \<Rightarrow> exn option"
  repr_float :: "real \<Rightarrow> string"

text \<open>
  \<^verbatim>\<open>Image.resize\<close> returns a copy of the image when the requested size is the size it
  has, and resamples otherwise.
\<close>

definition resize_rgb :: "world \<Rightarrow> resampling \<Rightarrow> int \<times> int \<Rightarrow> image \<Rightarrow> exn + image" where
  "resize_rgb W k sz im = (if size_of im = sz then Inr im else resample_rgb W k sz im)"

definition resize_f :: "world \<Rightarrow> resampling \<Rightarrow> int \<times> int \<Rightarrow> plane \<Rightarrow> exn + plane" where
  "resize_f W k sz pl = (if size_of pl = sz then Inr pl else resample_f W k sz pl)"

section \<open>Resizing\<close>

definition channel :: "nat \<Rightarrow> rgb \<Rightarrow> int" where
  "channel i px = (case px of (r, g, b) \<Rightarrow> if i = 0 then r else if i = 1 then g else b)"

text \<open>\<^verbatim>\<open>np.stack(chs, axis=2)\<close> of three planes, which must have one shape.\<close>

definition stack3 :: "plane \<Rightarrow> plane \<Rightarrow> plane \<Rightarrow> exn + (real \<times> real \<times> real) list list" where
  "stack3 r g b =
     (if map length r = map length g \<and> map length g = map length b
      then Inr (map (\<lambda>(rr, gr, br). zip rr (zip gr br)) (zip r (zip g b)))
      else Inl (Exn ''all input arrays must have the same shape''))"

text \<open>The body shared by the two linear-light branches, which differ in the kernel only.\<close>

definition resize_linear :: "world \<Rightarrow> resampling \<Rightarrow> image \<Rightarrow> int \<Rightarrow> int \<Rightarrow> exn + image" where
  "resize_linear W k pil_img w h =
     (let lin = (\<lambda>i. map (map (\<lambda>px. srgb_to_linear (channel i px))) pil_img)
      in bindE (resize_f W k (w, h) (lin 0)) (\<lambda>ch0.
         bindE (resize_f W k (w, h) (lin 1)) (\<lambda>ch1.
         bindE (resize_f W k (w, h) (lin 2)) (\<lambda>ch2.
         bindE (stack3 ch0 ch1 ch2) (\<lambda>lin_small.
         Inr (map (map (\<lambda>(r, g, b). (linear_to_srgb r, linear_to_srgb g, linear_to_srgb b)))
                lin_small))))))"

definition resize_with_optimal_filter :: "world \<Rightarrow> image \<Rightarrow> int \<Rightarrow> int \<Rightarrow> string \<Rightarrow> exn + image" where
  "resize_with_optimal_filter W pil_img w h method =
     (if method = ''linear_lanczos'' then resize_linear W LANCZOS pil_img w h
      else if method = ''linear_bicubic'' then resize_linear W BICUBIC pil_img w h
      else if method = ''lanczos'' then resize_rgb W LANCZOS (w, h) pil_img
      else if method = ''bicubic'' then resize_rgb W BICUBIC (w, h) pil_img
      else resize_rgb W LANCZOS (w, h) pil_img)"

section \<open>Filters\<close>

definition sharpen_params :: "string \<rightharpoonup> real \<times> int \<times> int" where
  "sharpen_params =
     [''light'' \<mapsto> (0.7, 80, 3), ''medium'' \<mapsto> (1.0, 110, 2), ''strong'' \<mapsto> (1.2, 140, 1)]"

definition apply_edge_aware_sharpen :: "world \<Rightarrow> image \<Rightarrow> string \<Rightarrow> exn + image" where
  "apply_edge_aware_sharpen W pil_img strength =
     (if strength = ''none'' then Inr pil_img
      else
        (case (case sharpen_params strength of Some p \<Rightarrow> p | None \<Rightarrow> (0.7, 80, 3)) of
           (radius, percent, threshold) \<Rightarrow> unsharp_mask W radius percent threshold pil_img))"

definition enhance_color_separation :: "world \<Rightarrow> image \<Rightarrow> real \<Rightarrow> real \<Rightarrow> exn + image" where
  "enhance_color_separation W pil_img saturation contrast =
     bindE (if saturation \<noteq> 1 then color_enhance W saturation pil_img else Inr pil_img) (\<lambda>img.
     if contrast \<noteq> 1 then contrast_enhance W contrast img else Inr img)"

definition apply_gentle_denoise :: "world \<Rightarrow> image \<Rightarrow> int \<Rightarrow> exn + image" where
  "apply_gentle_denoise W pil_img radius =
     (if radius \<le> 0 then Inr pil_img else median_filter W (min 5 (radius * 2 + 1)) pil_img)"

text \<open>Steps 2, 3 and 4 of the pipeline, each with the guard the pipeline puts before it.\<close>

definition denoise_step :: "world \<Rightarrow> int \<Rightarrow> image \<Rightarrow> exn + image" where
  "denoise_step W denoise img =
     (if denoise > 0 then apply_gentle_denoise W img denoise else Inr img)"

definition color_step :: "world \<Rightarrow> real \<Rightarrow> real \<Rightarrow> image \<Rightarrow> exn + image" where
  "color_step W saturation contrast img =
     (if saturation \<noteq> 1 \<or> contrast \<noteq> 1 then enhance_color_separation W img saturation contrast
      else Inr img)"

definition sharpen_step :: "world \<Rightarrow> string \<Rightarrow> image \<Rightarrow> exn + image" where
  "sharpen_step W sharpen img =
     (if sharpen \<noteq> ''none'' then apply_edge_aware_sharpen W img sharpen else Inr img)"

section \<open>Target dimensions\<close>

text \<open>
  Python's \<^verbatim>\<open>round\<close> of a float: the nearest integer, a tie going to the even one.
\<close>

definition py_round :: "real \<Rightarrow> int" where
  "py_round x =
     (let f = \<lfloor>x\<rfloor>; d = x - of_int f
      in if d < 1 / 2 then f else if d > 1 / 2 then f + 1 else if even f then f else f + 1)"

subsection \<open>Floats\<close>

text \<open>
  A Python float is an IEEE 754 binary64 value: a finite real, an infinity or a NaN (the
  two zeros are not told apart: nothing below depends on the sign of a zero, since a
  division by either raises). \<open>binade x\<close> is the exponent of the power of two at or below a
  positive \<open>x\<close>; \<open>fl64\<close> rounds a real to the nearest value with 53 significant bits, a tie
  going to the even significand, with gradual underflow below \<open>2 powi - 1022\<close> and
  overflow to an infinity from \<open>2 ^ 1024\<close> on. The basic operations of the language
  return the rounded exact result.
\<close>

datatype pyfloat = Fin real | PInf | NInf | NaN

fun bits :: "nat \<Rightarrow> nat" where
  "bits n = (if n < 2 then 0 else Suc (bits (n div 2)))"

declare bits.simps [simp del]

definition binade :: "real \<Rightarrow> int" where
  "binade x =
     (if 1 \<le> x then int (bits (nat \<lfloor>x\<rfloor>))
      else - int (bits (nat (\<lceil>1 / x\<rceil> - 1))) - 1)"

definition fl64 :: "real \<Rightarrow> pyfloat" where
  "fl64 x =
     (if x = 0 then Fin 0
      else
        (let q = 2 powi (max (binade \<bar>x\<bar>) (- 1022) - 52);
             y = of_int (py_round (x / q)) * q
         in if 2 ^ 1024 \<le> \<bar>y\<bar> then (if 0 < x then PInf else NInf) else Fin y))"

definition is_zero :: "pyfloat \<Rightarrow> bool" where
  "is_zero a = (a = Fin 0)"

definition negative :: "pyfloat \<Rightarrow> bool" where
  "negative a = (case a of Fin x \<Rightarrow> x < 0 | NInf \<Rightarrow> True | _ \<Rightarrow> False)"


definition signed_inf :: "bool \<Rightarrow> pyfloat" where
  "signed_inf neg = (if neg then NInf else PInf)"

text \<open>
  The conversion of an integer to a float (as the product of an integer and a float
  begins), the true division of two integers, the product and the quotient of two floats,
  and \<^verbatim>\<open>round\<close> of a float. Product and quotient overflow silently; the other three
  raise.
\<close>

definition int_to_float :: "int \<Rightarrow> exn + pyfloat" where
  "int_to_float i =
     (case fl64 (real_of_int i) of
        Fin v \<Rightarrow> Inr (Fin v)
      | _ \<Rightarrow> Inl (Exn ''int too large to convert to float''))"

definition int_true_div :: "int \<Rightarrow> int \<Rightarrow> exn + pyfloat" where
  "int_true_div a b =
     (if b = 0 then Inl (Exn ''division by zero'')
      else
        (case fl64 (real_of_int a / real_of_int b) of
           Fin v \<Rightarrow> Inr (Fin v)
         | _ \<Rightarrow> Inl (Exn ''integer division result too large for a float'')))"

fun float_mul :: "pyfloat \<Rightarrow> pyfloat \<Rightarrow> pyfloat" where
  "float_mul (Fin x) (Fin y) = fl64 (x * y)"
| "float_mul NaN b = NaN"
| "float_mul a NaN = NaN"
| "float_mul a b =
     (if is_zero a \<or> is_zero b then NaN else signed_inf (negative a \<noteq> negative b))"

fun ieee_div :: "pyfloat \<Rightarrow> pyfloat \<Rightarrow> pyfloat" where
  "ieee_div (Fin x) (Fin y) = fl64 (x / y)"
| "ieee_div NaN b = NaN"
| "ieee_div a NaN = NaN"
| "ieee_div (Fin x) b = Fin 0"
| "ieee_div a (Fin y) = signed_inf (negative a \<noteq> (y < 0))"
| "ieee_div a b = NaN"

definition float_div :: "pyfloat \<Rightarrow> pyfloat \<Rightarrow> exn + pyfloat" where
  "float_div a b =
     (if is_zero b then Inl (Exn ''float division by zero'') else Inr (ieee_div a b))"

definition float_round :: "pyfloat \<Rightarrow> exn + int" where
  "float_round a =
     (case a of
        Fin x \<Rightarrow> Inr (py_round x)
      | NaN \<Rightarrow> Inl (Exn ''cannot convert float NaN to integer'')
      | _ \<Rightarrow> Inl (Exn ''cannot convert float infinity to integer''))"

subsection \<open>The character and pixel heights\<close>

text \<open>
  \<open>float_quotient\<close> is the float \<^verbatim>\<open>width * aspect_ratio / cell_aspect\<close> with
  \<^verbatim>\<open>aspect_ratio = src_h / src_w\<close>, evaluated in the order of the source;
  \<open>target_height_chars\<close> rounds it and takes at least 1.
\<close>

definition float_quotient :: "int \<Rightarrow> int \<Rightarrow> int \<Rightarrow> pyfloat \<Rightarrow> exn + pyfloat" where
  "float_quotient width src_w src_h cell_aspect =
     bindE (int_true_div src_h src_w) (\<lambda>aspect_ratio.
     bindE (int_to_float width) (\<lambda>w.
     float_div (float_mul w aspect_ratio) cell_aspect))"

definition target_height_chars :: "int \<Rightarrow> int \<Rightarrow> int \<Rightarrow> pyfloat \<Rightarrow> exn + int" where
  "target_height_chars width src_w src_h cell_aspect =
     bindE (float_quotient width src_w src_h cell_aspect) (\<lambda>q.
     bindE (float_round q) (\<lambda>r. Inr (max 1 r)))"

definition target_h_px :: "bool \<Rightarrow> int \<Rightarrow> int" where
  "target_h_px half_block height_chars =
     (if half_block then
        (let h_px = height_chars * 2 in if h_px mod 2 = 1 then h_px + 1 else h_px)
      else height_chars)"

section \<open>Cell encoding\<close>

text \<open>
  Step 5: the rows of cells, before each row is joined into a line. In half-block mode an
  odd height loses its last row, and the rows are taken in pairs \<open>y\<close>, \<open>y + 1\<close> for
  \<open>y\<close> in \<^verbatim>\<open>range(0, h, 2)\<close>.
\<close>

definition half_block_rows :: "image \<Rightarrow> nat \<Rightarrow> nat \<Rightarrow> bool \<Rightarrow> bool \<Rightarrow> exn + string list list" where
  "half_block_rows img w h upper_half use_csi =
     mapE (\<lambda>y.
        mapE (\<lambda>x.
           bindE (getpixel img x y) (\<lambda>top.
           bindE (getpixel img x (y + 1)) (\<lambda>bot.
           Inr (ansi_fg_bg top bot upper_half use_csi))))
          [0..<w])
       (filter even [0..<h])"

definition full_block_rows :: "image \<Rightarrow> nat \<Rightarrow> nat \<Rightarrow> string \<Rightarrow> bool \<Rightarrow> exn + string list list" where
  "full_block_rows img w h char_full use_csi =
     mapE (\<lambda>y.
        mapE (\<lambda>x. bindE (getpixel img x y) (\<lambda>px. Inr (ansi_single px char_full use_csi)))
          [0..<w])
       [0..<h]"

definition cell_rows :: "image \<Rightarrow> bool \<Rightarrow> bool \<Rightarrow> string \<Rightarrow> bool \<Rightarrow> exn + string list list \<times> int" where
  "cell_rows img half_block upper_half char_full use_csi =
     (let w = nat (fst (size_of img)); h = nat (snd (size_of img))
      in if half_block then
           (let h2 = (if h mod 2 = 1 then h - 1 else h);
                img2 = (if h mod 2 = 1 then crop img w h2 else img)
            in bindE (half_block_rows img2 w h2 upper_half use_csi) (\<lambda>rows.
               Inr (rows, int (h2 div 2))))
         else
           bindE (full_block_rows img w h char_full use_csi) (\<lambda>rows. Inr (rows, int h)))"

section \<open>Output and the entry points\<close>

text \<open>
  What the program does to the outside is a list of events, in order. A computation with
  effects returns the events it caused together with its result or the exception that
  ended it, so that output made before an exception stays in the list.
\<close>

datatype event =
  Print string
| Print_traceback
| File_opened string
| File_written string string
| File_closed string

type_synonym 'a io = "event list \<times> (exn + 'a)"

definition bindIO :: "'a io \<Rightarrow> ('a \<Rightarrow> 'b io) \<Rightarrow> 'b io" where
  "bindIO m f =
     (case m of
        (l, Inl e) \<Rightarrow> (l, Inl e)
      | (l, Inr x) \<Rightarrow> (case f x of (l2, r) \<Rightarrow> (l @ l2, r)))"

definition liftE :: "exn + 'a \<Rightarrow> 'a io" where
  "liftE r = ([], r)"

definition print :: "string \<Rightarrow> unit io" where
  "print s = ([Print s], Inr ())"

definition f_write :: "world \<Rightarrow> string \<Rightarrow> string \<Rightarrow> unit io" where
  "f_write W path s =
     (case file_write W path s of
        None \<Rightarrow> ([File_written path s], Inr ())
      | Some e \<Rightarrow> ([], Inl e))"

fun each_io :: "('a \<Rightarrow> unit io) \<Rightarrow> 'a list \<Rightarrow> unit io" where
  "each_io f [] = ([], Inr ())"
| "each_io f (x # xs) = bindIO (f x) (\<lambda>_. each_io f xs)"

text \<open>
  \<^verbatim>\<open>with open(path, "w") as f:\<close> closes the file on every way out of the block. When the
  close raises, its exception is the one that leaves the block, also when the body has
  raised before.
\<close>

definition with_open :: "world \<Rightarrow> string \<Rightarrow> unit io \<Rightarrow> unit io" where
  "with_open W path body =
     (case file_open W path of
        Some e \<Rightarrow> ([], Inl e)
      | None \<Rightarrow>
          (case body of
             (l, r) \<Rightarrow>
               (case file_close W path of
                  None \<Rightarrow> (File_opened path # l @ [File_closed path], r)
                | Some e \<Rightarrow> (File_opened path # l, Inl e))))"

record options =
  p_image_path :: string
  p_width :: int
  p_output_file :: "string option"
  p_module_name :: string
  p_half_block :: bool
  p_upper_half :: bool
  p_char_full :: string
  p_use_csi :: bool
  p_output_format :: string
  p_resize_method :: string
  p_sharpen :: string
  p_denoise :: int
  p_saturation :: real
  p_contrast :: real
  p_cell_aspect :: pyfloat

text \<open>
  The body of the \<^verbatim>\<open>try\<close> block up to step 5: load, target dimensions, resize, the three
  filter steps and the cell encoding. It yields the rows of cells, the height in
  characters and the source size.
\<close>

definition render :: "world \<Rightarrow> options \<Rightarrow> exn + string list list \<times> int \<times> int \<times> int" where
  "render W opts =
     bindE (image_open W (p_image_path opts)) (\<lambda>src.
     case size_of src of (src_w, src_h) \<Rightarrow>
     bindE (target_height_chars (p_width opts) src_w src_h (p_cell_aspect opts)) (\<lambda>height_chars.
     let h_px = target_h_px (p_half_block opts) height_chars
     in bindE (resize_with_optimal_filter W src (p_width opts) h_px (p_resize_method opts)) (\<lambda>img1.
        bindE (denoise_step W (p_denoise opts) img1) (\<lambda>img2.
        bindE (color_step W (p_saturation opts) (p_contrast opts) img2) (\<lambda>img3.
        bindE (sharpen_step W (p_sharpen opts) img3) (\<lambda>img4.
        bindE (cell_rows img4 (p_half_block opts) (p_upper_half opts) (p_char_full opts)
                 (p_use_csi opts)) (\<lambda>(rows, out_h_chars).
        Inr (rows, out_h_chars, src_w, src_h))))))))"

definition RULE :: string where
  "RULE = ''//============================================================================''"

definition NL :: string where
  "NL = [CHR 0x0A]"

text \<open>Step 6: the format is resolved, the lines are formatted and then written or printed.\<close>

definition emit :: "world \<Rightarrow> options \<Rightarrow> string list list \<times> int \<times> int \<times> int \<Rightarrow> unit io" where
  "emit W opts r =
     (case r of (rows, out_h_chars, src_w, src_h) \<Rightarrow>
      let ansi_lines = map concat rows;
          output_file = p_output_file opts;
          final_format = resolve_output_format (p_output_format opts) output_file;
          wrote = ''Wrote output file: '' @ the output_file @ '' (format='' @ final_format @ '')''
      in if final_format = ''verilog'' then
           (let display_lines = map display_statement ansi_lines
            in if truthy output_file then
                 bindIO (with_open W (the output_file)
                   (bindIO (each_io (f_write W (the output_file))
                      [RULE @ NL,
                       ''// Auto-generated image display code - '' @ basename (p_image_path opts) @ NL,
                       ''// Source size: '' @ str_int src_w @ ''x'' @ str_int src_h @ NL,
                       ''// Output size: '' @ str_int (p_width opts) @ ''x'' @ str_int out_h_chars @ NL,
                       ''// Output format: '' @ final_format @ NL,
                       ''// Options: resize_method='' @ p_resize_method opts @ '' sharpen=''
                         @ p_sharpen opts @ NL,
                       ''//          denoise='' @ str_int (p_denoise opts) @ '' saturation=''
                         @ repr_float W (p_saturation opts) @ '' contrast=''
                         @ repr_float W (p_contrast opts) @ NL,
                       RULE @ NL @ NL,
                       ''task '' @ p_module_name opts @ '';'' @ NL @ ''begin'' @ NL]) (\<lambda>_.
                    bindIO (each_io (\<lambda>line. f_write W (the output_file) (''  '' @ line @ NL))
                      display_lines) (\<lambda>_.
                    f_write W (the output_file) (''end'' @ NL @ ''endtask'' @ NL))))) (\<lambda>_.
                 print wrote)
               else each_io print display_lines)
         else
           (if truthy output_file then
              bindIO (with_open W (the output_file)
                (each_io (\<lambda>line. f_write W (the output_file) (line @ NL)) ansi_lines)) (\<lambda>_.
              print wrote)
            else each_io print ansi_lines))"

definition image_to_verilog_display :: "world \<Rightarrow> options \<Rightarrow> event list \<times> bool" where
  "image_to_verilog_display W opts =
     (if \<not> path_exists W (p_image_path opts) then
        ([Print (''Error: image file not found: '' @ [CHR 0x27] @ p_image_path opts @ [CHR 0x27])],
         False)
      else
        (case bindIO (liftE (render W opts)) (emit W opts) of
           (l, Inr _) \<Rightarrow> (l, True)
         | (l, Inl e) \<Rightarrow>
             (l @ [Print (''Error while processing image: '' @ message e), Print_traceback],
              False)))"

text \<open>
  What the entry point prints when it has caught an exception: the error line and the
  traceback.
\<close>

definition failure_report :: "exn \<Rightarrow> event list" where
  "failure_report e = [Print (''Error while processing image: '' @ message e), Print_traceback]"

text \<open>The parsed command line, and \<^verbatim>\<open>main\<close> from there on: \<open>main_options\<close> are the keyword
  arguments it passes on, and it ends in \<^verbatim>\<open>sys.exit\<close>.\<close>

record args =
  a_image :: string
  a_width :: int
  a_output :: "string option"
  a_name :: string
  a_format :: string
  a_no_csi :: bool
  a_no_half_block :: bool
  a_upper_half :: bool
  a_lower_half :: bool
  a_char :: string
  a_cell_aspect :: pyfloat
  a_resize_method :: string
  a_sharpen :: string
  a_denoise :: int
  a_saturation :: real
  a_contrast :: real

definition exit_status :: "bool \<Rightarrow> int" where
  "exit_status ok = (if ok then 0 else 1)"

definition main_options :: "args \<Rightarrow> options" where
  "main_options a =
     (let out_of_range = (a_width a \<le> 0 \<or> a_width a > 200);
          width = (if out_of_range then max 1 (min 200 (a_width a)) else a_width a);
          half_block = (\<not> a_no_half_block a);
          upper = (if a_upper_half a \<or> \<not> a_lower_half a then True else False);
          output_path =
            (if truthy (a_output a) then the (a_output a)
             else default_output_path (a_image a) (a_format a))
      in \<lparr>p_image_path = a_image a, p_width = width, p_output_file = Some output_path,
          p_module_name = a_name a, p_half_block = half_block, p_upper_half = upper,
          p_char_full = a_char a, p_use_csi = (\<not> a_no_csi a),
          p_output_format = a_format a, p_resize_method = a_resize_method a,
          p_sharpen = a_sharpen a, p_denoise = a_denoise a,
          p_saturation = a_saturation a, p_contrast = a_contrast a,
          p_cell_aspect = a_cell_aspect a\<rparr>)"

definition main :: "world \<Rightarrow> args \<Rightarrow> event list \<times> int" where
  "main W a =
     (let warning =
            (if a_width a \<le> 0 \<or> a_width a > 200
             then [Print ''Warning: width should be in 1-200; value has been clamped.'']
             else [])
      in case image_to_verilog_display W (main_options a) of
           (l, ok) \<Rightarrow> (warning @ l, exit_status ok))"

section \<open>A scenario\<close>

text \<open>
  A 2 by 2 image, every pixel pure red, behind every path; a file system that accepts
  every write; an imaging library whose resampling and filters are never needed and raise
  when called.
\<close>

definition RED :: rgb where
  "RED = (255, 0, 0)"

definition solid_red :: image where
  "solid_red = [[RED, RED], [RED, RED]]"

definition red_world :: world where
  "red_world =
     \<lparr>path_exists = (\<lambda>p. True),
      image_open = (\<lambda>p. Inr solid_red),
      resample_rgb = (\<lambda>k sz im. Inl (Exn ''resample'')),
      resample_f = (\<lambda>k sz pl. Inl (Exn ''resample'')),
      median_filter = (\<lambda>n im. Inl (Exn ''median filter'')),
      color_enhance = (\<lambda>f im. Inl (Exn ''color'')),
      contrast_enhance = (\<lambda>f im. Inl (Exn ''contrast'')),
      unsharp_mask = (\<lambda>r p t im. Inl (Exn ''unsharp mask'')),
      file_open = (\<lambda>p. None),
      file_write = (\<lambda>p s. None),
      file_close = (\<lambda>p. None),
      repr_float = (\<lambda>x. ''1.0'')\<rparr>"

definition red_options :: options where
  "red_options =
     \<lparr>p_image_path = ''red.png'', p_width = 2, p_output_file = None,
      p_module_name = ''display_image'', p_half_block = True, p_upper_half = True,
      p_char_full = FULL_BLOCK, p_use_csi = True, p_output_format = ''auto'',
      p_resize_method = ''linear_bicubic'', p_sharpen = ''none'', p_denoise = 0,
      p_saturation = 1, p_contrast = 1, p_cell_aspect = Fin 2\<rparr>"

text \<open>
  The command line \<^verbatim>\<open>red.png -w 2 --sharpen none\<close>, as \<^verbatim>\<open>argparse\<close> returns it.
\<close>

definition red_args :: args where
  "red_args =
     \<lparr>a_image = ''red.png'', a_width = 2, a_output = None, a_name = ''display_image'',
      a_format = ''auto'', a_no_csi = False, a_no_half_block = False, a_upper_half = False,
      a_lower_half = False, a_char = FULL_BLOCK, a_cell_aspect = Fin 2,
      a_resize_method = ''linear_bicubic'', a_sharpen = ''none'', a_denoise = 0,
      a_saturation = 1, a_contrast = 1\<rparr>"

text \<open>
  The encoder reads inside the image only, so it raises on no image the library yields.
  The images of the model may have rows of different lengths, and on this one reading the
  last pixel raises.
\<close>

definition ragged_red :: image where
  "ragged_red = [[RED, RED], [RED]]"

text \<open>A writer that accepts the comment lines of a header and raises on any other text.\<close>

definition failing_writer_world :: world where
  "failing_writer_world =
     red_world\<lparr>file_write :=
       (\<lambda>p s. if take 2 s = ''//'' then None else Some (Exn ''write failed''))\<rparr>"

section \<open>Theorems\<close>

subsection \<open>Half-block cells\<close>

lemma ansi_fg_bg_sequences:
  "ansi_fg_bg top_rgb bot_rgb use_upper use_csi =
     set_foreground use_csi top_rgb @ set_background use_csi bot_rgb
       @ half_glyph use_upper @ reset_sequence use_csi"
  by (cases top_rgb; cases bot_rgb)
     (simp add: ansi_fg_bg_def set_foreground_def set_background_def half_glyph_def
        reset_sequence_def escape_prefix_def CSI_def ESC_def UPPER_HALF_BLOCK_def
        LOWER_HALF_BLOCK_def)

lemma ansi_fg_bg_red_over_blue:
  "ansi_fg_bg (255, 0, 0) (0, 0, 255) True True =
     CHR 0x1B # ''[38;2;255;0;0m'' @ CHR 0x1B # ''[48;2;0;0;255m''
       @ [CHR 0xE2, CHR 0x96, CHR 0x80] @ CHR 0x1B # ''[0m''"
  by (simp add: ansi_fg_bg_def CSI_def ESC_def UPPER_HALF_BLOCK_def str_int_def
        str_nat.simps digit_char_def)

text \<open>
  Claim C4. Whatever the two colours, the glyph choice and the prefix choice, a half-block
  cell is the set-foreground sequence of the top pixel, then the set-background sequence
  of the bottom pixel, then the glyph, then the reset: the glyph choice changes the glyph
  and nothing else. For top (255,0,0), bottom (0,0,255), CSI enabled and the upper-half
  glyph the cell is ESC[38;2;255;0;0m ESC[48;2;0;0;255m, the three UTF-8 bytes of the
  upper half block, ESC[0m.
\<close>

theorem half_block_cell_foreground_top_background_bottom:
  "ansi_fg_bg top_rgb bot_rgb use_upper use_csi =
     set_foreground use_csi top_rgb @ set_background use_csi bot_rgb
       @ half_glyph use_upper @ reset_sequence use_csi
   \<and> ansi_fg_bg (255, 0, 0) (0, 0, 255) True True =
       CHR 0x1B # ''[38;2;255;0;0m'' @ CHR 0x1B # ''[48;2;0;0;255m''
         @ [CHR 0xE2, CHR 0x96, CHR 0x80] @ CHR 0x1B # ''[0m''"
  using ansi_fg_bg_sequences ansi_fg_bg_red_over_blue by blast

theorem half_block_cell_foreground_top_background_bottom_witness:
  "ansi_fg_bg (1, 2, 3) (40, 50, 60) False False =
     ''[38;2;1;2;3m'' @ ''[48;2;40;50;60m'' @ [CHR 0xE2, CHR 0x96, CHR 0x84] @ ''[0m''"
  using half_block_cell_foreground_top_background_bottom
          [of "(1, 2, 3)" "(40, 50, 60)" False False]
  by (simp add: set_foreground_def set_background_def half_glyph_def reset_sequence_def
        escape_prefix_def str_int_def str_nat.simps digit_char_def)

subsection \<open>Escaping\<close>

lemma escape_verilog_string_chars:
  "escape_verilog_string s = concat (map escape_char s)"
  by (induction s)
     (auto simp: escape_verilog_string_def replace_chr_def escape_char_def BACKSLASH_def
        DQUOTE_def)

lemma read_literal_escaped:
  "read_literal (concat (map escape_char s) @ DQUOTE # rest) = Some (s, rest)"
  by (induction s) (auto simp: escape_char_def BACKSLASH_def DQUOTE_def)

text \<open>
  Claim C6. The escaping of a line replaces each backslash by two backslashes and each
  double quote by a backslash and a double quote, and leaves every other character as it
  is. The display statement built from the line is the text \<^verbatim>\<open>$display(\<close>, a quote, the
  escaped line, a quote and \<^verbatim>\<open>);\<close>; read as a string literal from its opening quote, the
  escaped line ends at that closing quote and nowhere before it, and denotes the line.
\<close>

theorem display_statement_is_one_literal:
  "escape_verilog_string line = concat (map escape_char line)
   \<and> display_statement line =
       ''$display('' @ [DQUOTE] @ escape_verilog_string line @ [DQUOTE] @ '');''
   \<and> read_literal (escape_verilog_string line @ [DQUOTE] @ '');'') = Some (line, '');'')"
proof -
  have "read_literal (escape_verilog_string line @ DQUOTE # '');'') = Some (line, '');'')"
    using read_literal_escaped [of line "'');''"]
    by (simp only: escape_verilog_string_chars)
  then show ?thesis
    by (simp add: escape_verilog_string_chars display_statement_def)
qed

theorem display_statement_is_one_literal_witness:
  "escape_verilog_string [CHR ''a'', CHR 0x5C, CHR 0x22] =
     [CHR ''a'', CHR 0x5C, CHR 0x5C, CHR 0x5C, CHR 0x22]
   \<and> read_literal ([CHR ''a'', CHR 0x5C, CHR 0x5C, CHR 0x5C, CHR 0x22] @ [CHR 0x22] @ '');'')
       = Some ([CHR ''a'', CHR 0x5C, CHR 0x22], '');'')"
  using display_statement_is_one_literal [of "[CHR ''a'', CHR 0x5C, CHR 0x22]"]
  by (simp add: escape_char_def BACKSLASH_def DQUOTE_def)

subsection \<open>Output format\<close>

lemma splitext_empty: "splitext [] = ([], [])"
  by (simp add: splitext_def rfind_def)

lemma lower_extensions:
  "lower ''.sv'' = ''.sv''" "lower ''.v'' = ''.v''"
  "lower ''.svh'' = ''.svh''" "lower ''.vh'' = ''.vh''"
  by (simp_all add: lower_def lower_chr_def)

lemma resolve_auto:
  "resolve_output_format ''auto'' output_file =
     (if has_verilog_extension output_file then ''verilog'' else ''ansi'')"
proof (cases output_file)
  case None
  then show ?thesis
    by (simp add: resolve_output_format_def has_verilog_extension_def truthy_def)
next
  case (Some f)
  show ?thesis
  proof (cases "f = []")
    case True
    with Some show ?thesis
      by (simp add: resolve_output_format_def has_verilog_extension_def truthy_def
            splitext_empty same_ignoring_case_def lower_def)
  next
    case False
    with Some show ?thesis
      by (auto simp: resolve_output_format_def has_verilog_extension_def truthy_def
            same_ignoring_case_def lower_extensions VERILOG_EXTENSIONS_def Let_def)
  qed
qed

lemma resolve_examples:
  "resolve_output_format ''auto'' (Some ''out/pic.SV'') = ''verilog''"
  "resolve_output_format ''auto'' (Some ''pic.svh'') = ''verilog''"
  "resolve_output_format ''auto'' (Some ''pic.ans'') = ''ansi''"
  "resolve_output_format ''auto'' (Some ''pic.sv.txt'') = ''ansi''"
  "resolve_output_format ''auto'' (Some ''.sv'') = ''ansi''"
  "resolve_output_format ''auto'' None = ''ansi''"
  by (simp_all add: resolve_output_format_def truthy_def splitext_def rfind_def
        has_name_before_dot.simps lower_def lower_chr_def VERILOG_EXTENSIONS_def)

text \<open>
  Claim C8. With the selector \<^verbatim>\<open>auto\<close> the format is \<^verbatim>\<open>verilog\<close> exactly when an output
  file is given and its extension, compared without regard to case, is one of \<^verbatim>\<open>.sv\<close>,
  \<^verbatim>\<open>.v\<close>, \<^verbatim>\<open>.svh\<close>, \<^verbatim>\<open>.vh\<close>, and \<^verbatim>\<open>ansi\<close> otherwise, also when no output file is given.
  The selectors \<^verbatim>\<open>ansi\<close> and \<^verbatim>\<open>verilog\<close> are returned as they are.
\<close>

theorem resolve_output_format_by_extension:
  "resolve_output_format ''auto'' output_file =
     (if has_verilog_extension output_file then ''verilog'' else ''ansi'')
   \<and> resolve_output_format ''auto'' None = ''ansi''
   \<and> resolve_output_format ''ansi'' output_file = ''ansi''
   \<and> resolve_output_format ''verilog'' output_file = ''verilog''"
  by (simp add: resolve_auto has_verilog_extension_def) (simp add: resolve_output_format_def)

theorem resolve_output_format_by_extension_witness:
  "resolve_output_format ''auto'' (Some ''out/pic.SV'') = ''verilog''
   \<and> resolve_output_format ''auto'' (Some ''pic.ans'') = ''ansi''
   \<and> resolve_output_format ''verilog'' (Some ''pic.ans'') = ''verilog''"
  using resolve_output_format_by_extension [of "Some ''out/pic.SV''"]
        resolve_output_format_by_extension [of "Some ''pic.ans''"]
  by (simp add: has_verilog_extension_def same_ignoring_case_def splitext_def rfind_def
        has_name_before_dot.simps lower_def lower_chr_def)

subsection \<open>Target dimensions\<close>

text \<open>
  \<open>py_round\<close> is a nearest integer and breaks a tie towards the even one; \<open>bits\<close> and
  \<open>binade\<close> locate a positive real between two powers of two, from which \<open>fl64\<close> is
  evaluated at an explicit exponent; the rounding error of \<open>fl64\<close> is at most half a unit
  in the last place.
\<close>

lemma py_round_nearest: "\<bar>x - of_int (py_round x)\<bar> \<le> 1 / 2"
  unfolding py_round_def Let_def by (auto; linarith)



lemma bits_bounds: "0 < n \<Longrightarrow> 2 ^ bits n \<le> n \<and> n < 2 ^ (bits n + 1)"
proof (induction n rule: bits.induct)
  case (1 n)
  show ?case
  proof (cases "n < 2")
    case True
    with 1(2) have "n = 1" by simp
    then show ?thesis by (simp add: bits.simps)
  next
    case False
    then have h: "0 < n div 2" by simp
    from 1(1) [OF False h]
    have a: "2 ^ bits (n div 2) \<le> n div 2" and b: "n div 2 < 2 ^ (bits (n div 2) + 1)"
      by simp_all
    have b': "n div 2 + 1 \<le> 2 ^ (bits (n div 2) + 1)" using b by simp
    have "bits n = Suc (bits (n div 2))" using False by (subst bits.simps) simp
    moreover have "2 * 2 ^ bits (n div 2) \<le> n" using a by linarith
    moreover have "n < 2 * 2 ^ (bits (n div 2) + 1)" using b' by linarith
    ultimately show ?thesis by simp
  qed
qed

lemma binade_correct:
  assumes "0 < x"
  shows "2 powi binade x \<le> x \<and> x < 2 powi (binade x + 1)"
proof (cases "1 \<le> x")
  case True
  define n where "n = nat \<lfloor>x\<rfloor>"
  have n: "0 < n" using True by (simp add: n_def)
  have nx: "real n \<le> x" "x < real n + 1"
    using True by (simp_all add: n_def)
  from bits_bounds [OF n] have a: "2 ^ bits n \<le> n" and b: "n + 1 \<le> 2 ^ (bits n + 1)"
    by simp_all
  have a': "(2::real) ^ bits n \<le> real n"
    using of_nat_mono [OF a, where ?'a = real] by simp
  have b': "real n + 1 \<le> (2::real) ^ (bits n + 1)"
    using of_nat_mono [OF b, where ?'a = real] by simp
  have e: "binade x = int (bits n)" using True by (simp add: binade_def n_def)
  have p1: "(2::real) powi binade x = 2 ^ bits n" by (simp add: e power_int_of_nat)
  have "binade x + 1 = int (bits n + 1)" by (simp add: e)
  then have p2: "(2::real) powi (binade x + 1) = 2 ^ (bits n + 1)"
    by (simp only: power_int_of_nat)
  show ?thesis unfolding p1 p2 using a' b' nx by linarith
next
  case False
  then have x1: "x < 1" by simp
  define m where "m = \<lceil>1 / x\<rceil>"
  define n where "n = nat (m - 1)"
  have inv: "1 < 1 / x" using assms x1 by simp
  have m2: "2 \<le> m" unfolding m_def using inv by linarith
  have n: "0 < n" using m2 by (simp add: n_def)
  have mx: "real_of_int m - 1 < 1 / x" "1 / x \<le> real_of_int m"
    unfolding m_def by linarith+
  have rn: "real n = real_of_int m - 1" using m2 by (simp add: n_def)
  from bits_bounds [OF n] have a: "2 ^ bits n \<le> n" and b: "n + 1 \<le> 2 ^ (bits n + 1)"
    by simp_all
  have a': "(2::real) ^ bits n \<le> real n"
    using of_nat_mono [OF a, where ?'a = real] by simp
  have b': "real n + 1 \<le> (2::real) ^ (bits n + 1)"
    using of_nat_mono [OF b, where ?'a = real] by simp
  have e: "binade x = - int (bits n) - 1" using False by (simp add: binade_def n_def m_def)
  have lo: "1 / x \<le> (2::real) ^ (bits n + 1)" using b' rn mx by linarith
  have hi: "(2::real) ^ bits n < 1 / x" using a' rn mx by linarith
  have "binade x = - int (bits n + 1)" by (simp add: e)
  then have p1: "(2::real) powi binade x = 1 / 2 ^ (bits n + 1)"
    by (simp only: power_int_minus_divide power_int_of_nat)
  have "binade x + 1 = - int (bits n)" by (simp add: e)
  then have p2: "(2::real) powi (binade x + 1) = 1 / 2 ^ bits n"
    by (simp only: power_int_minus_divide power_int_of_nat)
  have g1: "1 / 2 ^ (bits n + 1) \<le> x"
    using lo assms by (simp add: field_simps)
  have g2: "x < 1 / 2 ^ bits n"
    using hi assms by (simp add: field_simps)
  show ?thesis unfolding p1 p2 using g1 g2 by simp
qed

lemma binade_eqI:
  assumes "0 < x" and "2 powi e \<le> x" and "x < 2 powi (e + 1)"
  shows "binade x = e"
proof -
  from binade_correct [OF assms(1)]
  have b: "2 powi binade x \<le> x" "x < 2 powi (binade x + 1)" by simp_all
  have "\<not> binade x + 1 \<le> e"
  proof
    assume "binade x + 1 \<le> e"
    then have "(2::real) powi (binade x + 1) \<le> 2 powi e"
      by (intro power_int_increasing) simp_all
    with b(2) assms(2) show False by linarith
  qed
  moreover have "\<not> e + 1 \<le> binade x"
  proof
    assume "e + 1 \<le> binade x"
    then have "(2::real) powi (e + 1) \<le> 2 powi binade x"
      by (intro power_int_increasing) simp_all
    with b(1) assms(3) show False by linarith
  qed
  ultimately show ?thesis by linarith
qed

lemma fl64_eqI:
  assumes "0 < \<bar>x\<bar>" and "2 powi e \<le> \<bar>x\<bar>" and "\<bar>x\<bar> < 2 powi (e + 1)"
  shows "fl64 x =
     (let q = 2 powi (max e (- 1022) - 52);
          y = of_int (py_round (x / q)) * q
      in if 2 ^ 1024 \<le> \<bar>y\<bar> then (if 0 < x then PInf else NInf) else Fin y)"
proof -
  have "binade \<bar>x\<bar> = e" using assms by (rule binade_eqI)
  moreover have "x \<noteq> 0" using assms(1) by simp
  ultimately show ?thesis by (simp only: fl64_def if_False)
qed

lemma fl64_error:
  assumes "fl64 x = Fin y"
  shows "\<bar>y - x\<bar> \<le> 2 powi (max (binade \<bar>x\<bar>) (- 1022) - 53)"
proof (cases "x = 0")
  case True
  with assms have "y = 0" by (simp add: fl64_def)
  with True show ?thesis by simp
next
  case False
  define q :: real where "q = 2 powi (max (binade \<bar>x\<bar>) (- 1022) - 52)"
  have qpos: "0 < q" by (simp add: q_def)
  from assms False have y: "y = of_int (py_round (x / q)) * q"
    by (simp add: fl64_def Let_def q_def split: if_splits)
  have "\<bar>x / q - of_int (py_round (x / q))\<bar> \<le> 1 / 2" by (rule py_round_nearest)
  then have "\<bar>x / q - of_int (py_round (x / q))\<bar> * q \<le> 1 / 2 * q"
    using qpos by (intro mult_right_mono) simp_all
  moreover have "\<bar>x / q - of_int (py_round (x / q))\<bar> * q = \<bar>x - of_int (py_round (x / q)) * q\<bar>"
  proof -
    have "(x / q - of_int (py_round (x / q))) * q = x - of_int (py_round (x / q)) * q"
      using qpos by (simp add: field_simps)
    moreover have "\<bar>(x / q - of_int (py_round (x / q))) * q\<bar>
        = \<bar>x / q - of_int (py_round (x / q))\<bar> * q"
      using qpos by (simp add: abs_mult)
    ultimately show ?thesis by simp
  qed
  ultimately have "\<bar>y - x\<bar> \<le> q / 2" by (simp add: y abs_minus_commute)
  moreover have "q / 2 = 2 powi (max (binade \<bar>x\<bar>) (- 1022) - 53)"
  proof -
    have "max (binade \<bar>x\<bar>) (- 1022) - 52 = (max (binade \<bar>x\<bar>) (- 1022) - 53) + 1" by simp
    moreover have "(2::real) powi ((max (binade \<bar>x\<bar>) (- 1022) - 53) + 1)
        = 2 powi (max (binade \<bar>x\<bar>) (- 1022) - 53) * 2"
      by (rule power_int_add_1) simp
    ultimately have "q = 2 powi (max (binade \<bar>x\<bar>) (- 1022) - 53) * 2"
      unfolding q_def by simp
    then show ?thesis by simp
  qed
  ultimately show ?thesis by simp
qed

text \<open>
  Values of the model at a few inputs. The heights 7 and 63 are those of the float
  arithmetic; exact arithmetic would give 8 and 62.
\<close>

lemma fl64_small_integers:
  "fl64 1 = Fin 1" "fl64 2 = Fin 2" "fl64 5 = Fin 5" "fl64 11 = Fin 11" "fl64 60 = Fin 60"
  by (subst fl64_eqI [where e = 0], simp_all add: py_round_def)
     (subst fl64_eqI [where e = 1], simp_all add: py_round_def,
      subst fl64_eqI [where e = 2], simp_all add: py_round_def,
      subst fl64_eqI [where e = 3], simp_all add: py_round_def,
      subst fl64_eqI [where e = 5], simp_all add: py_round_def)

lemma fl64_half_5: "fl64 (5 / 2) = Fin (5 / 2)"
  by (subst fl64_eqI [where e = 1]) (simp_all add: py_round_def)




lemmas height_defs =
  target_height_chars_def float_quotient_def int_true_div_def int_to_float_def
  float_div_def float_round_def bindE_def is_zero_def






lemma quotient_5_1x1: "float_quotient 5 1 1 (Fin 2) = Inr (Fin (5 / 2))"
  by (simp add: height_defs fl64_small_integers fl64_half_5)

lemma height_5_1x1: "target_height_chars 5 1 1 (Fin 2) = Inr 2"
  by (simp add: target_height_chars_def quotient_5_1x1 bindE_def float_round_def py_round_def)












subsection \<open>Colour adjustment\<close>

text \<open>
  Claim C5. With saturation 1.0 and contrast 1.0 step 3 of the pipeline returns the image
  it was given, whatever the two enhancers of the imaging library would do with a factor
  of 1: neither is called. The same holds inside \<^verbatim>\<open>enhance_color_separation\<close>.
\<close>

theorem unit_saturation_and_contrast_skip_the_stage:
  "color_step W 1 1 img = Inr img \<and> enhance_color_separation W img 1 1 = Inr img"
  by (simp add: color_step_def enhance_color_separation_def bindE_def)

theorem unit_saturation_and_contrast_skip_the_stage_witness:
  "color_step red_world 1 1 solid_red = Inr solid_red
   \<and> color_step red_world 1 2 solid_red = Inl (Exn ''contrast'')"
  using unit_saturation_and_contrast_skip_the_stage [of red_world solid_red]
  by (simp add: color_step_def enhance_color_separation_def bindE_def red_world_def)

subsection \<open>Resize method\<close>

text \<open>
  Claim C10. A method string that is none of \<^verbatim>\<open>linear_lanczos\<close>, \<^verbatim>\<open>linear_bicubic\<close>,
  \<^verbatim>\<open>lanczos\<close>, \<^verbatim>\<open>bicubic\<close> raises nothing of its own: the image is resized as bytes with
  the Lanczos kernel, which is what the method \<^verbatim>\<open>lanczos\<close> does with the same image and
  target size.
\<close>

theorem unknown_method_resizes_as_lanczos:
  assumes "method \<notin> {''linear_lanczos'', ''linear_bicubic'', ''lanczos'', ''bicubic''}"
  shows "resize_with_optimal_filter W pil_img w h method = resize_rgb W LANCZOS (w, h) pil_img
       \<and> resize_with_optimal_filter W pil_img w h method
           = resize_with_optimal_filter W pil_img w h ''lanczos''"
  using assms by (simp add: resize_with_optimal_filter_def)

theorem unknown_method_resizes_as_lanczos_witness:
  "''nearest'' \<notin> {''linear_lanczos'', ''linear_bicubic'', ''lanczos'', ''bicubic''}
   \<and> resize_with_optimal_filter red_world solid_red 4 4 ''nearest'' = Inl (Exn ''resample'')
   \<and> resize_with_optimal_filter red_world solid_red 4 4 ''lanczos'' = Inl (Exn ''resample'')
   \<and> resize_with_optimal_filter red_world solid_red 2 2 ''nearest'' = Inr solid_red"
proof -
  have m: "''nearest'' \<notin> {''linear_lanczos'', ''linear_bicubic'', ''lanczos'', ''bicubic''}"
    by simp
  have a: "resize_rgb red_world LANCZOS (4, 4) solid_red = Inl (Exn ''resample'')"
    by (simp add: resize_rgb_def red_world_def solid_red_def size_of_def)
  have b: "resize_rgb red_world LANCZOS (2, 2) solid_red = Inr solid_red"
    by (simp add: resize_rgb_def red_world_def solid_red_def size_of_def)
  show ?thesis
    using unknown_method_resizes_as_lanczos [OF m, of red_world solid_red 4 4]
      unknown_method_resizes_as_lanczos [OF m, of red_world solid_red 2 2] a b m
    by metis
qed

subsection \<open>The conversions in exact arithmetic\<close>

text \<open>
  Over the reals the two conversions are inverse to each other on the bytes: the branch
  taken on the way back is the one taken on the way there, and the rounding rule returns
  the byte. This says nothing about the rounding errors of the 32-bit arithmetic of the
  source.
\<close>

lemma round_trip_linear_branch:
  assumes "0 \<le> c" "c \<le> 10"
  shows "linear_to_srgb (srgb_to_linear c) = c"
proof -
  have c1: "real_of_int c \<le> 10" using assms by simp
  have c0: "0 \<le> real_of_int c" using assms by simp
  have a: "real_of_int c / 255 \<le> 0.04045" using c1 by simp
  have b: "real_of_int c / 255 / 12.92 \<le> 0.0031308" using c1 by simp
  have "linear_to_srgb (srgb_to_linear c) = \<lfloor>min 255 (max 0 (real_of_int c + 0.5))\<rfloor>"
    using a b by (simp add: linear_to_srgb_def srgb_to_linear_def Let_def)
  also have "min 255 (max 0 (real_of_int c + 0.5)) = real_of_int c + 1/2"
    using c0 c1 by simp
  also have "\<lfloor>real_of_int c + 1/2\<rfloor> = c" by linarith
  finally show ?thesis .
qed

lemma power_branch_above_threshold:
  assumes "(11/255 + 0.055) / 1.055 \<le> (x::real)"
  shows "0.0031308 < x powr 2.4"
proof -
  define a :: real where "a = (11/255 + 0.055) / 1.055"
  have apos: "0 < a" by (simp add: a_def)
  have xpos: "0 < x" using assms apos unfolding a_def by linarith
  have "a powr 2.4 \<le> x powr 2.4"
    using assms apos by (intro powr_mono2) (simp_all add: a_def)
  moreover have "0.0031308 < a powr 2.4"
  proof (rule ccontr)
    assume "\<not> 0.0031308 < a powr 2.4"
    then have le: "a powr 2.4 \<le> 0.0031308" by simp
    have "(a powr 2.4) ^ 5 \<le> 0.0031308 ^ 5"
      using le by (intro power_mono) simp_all
    moreover have "(a powr 2.4) ^ 5 = a powr 12"
      using apos powr_power [of a "2.4" 5] by simp
    moreover have "a powr 12 = a ^ 12"
      using apos powr_realpow [of a 12] by simp
    moreover have "(0.0031308::real) ^ 5 < a ^ 12"
      by (simp add: a_def power_divide divide_simps)
    ultimately show False by linarith
  qed
  ultimately show ?thesis by linarith
qed

lemma round_trip_power_branch:
  assumes "11 \<le> c" "c \<le> 255"
  shows "linear_to_srgb (srgb_to_linear c) = c"
proof -
  define x :: real where "x = (real_of_int c / 255 + 0.055) / 1.055"
  have c1: "11 \<le> real_of_int c" "real_of_int c \<le> 255" using assms by simp_all
  have a: "\<not> real_of_int c / 255 \<le> 0.04045" using c1 by simp
  have xa: "(11/255 + 0.055) / 1.055 \<le> x" using c1 by (simp add: x_def)
  have xpos: "0 < x" using c1 by (simp add: x_def)
  have b: "\<not> x powr 2.4 \<le> 0.0031308" using power_branch_above_threshold [OF xa] by simp
  have inv: "(x powr 2.4) powr (1 / 2.4) = x"
    using xpos by (simp add: powr_powr)
  have lin: "srgb_to_linear c = x powr 2.4"
    using a by (simp add: srgb_to_linear_def Let_def x_def)
  have out: "1.055 * x - 0.055 = real_of_int c / 255" by (simp add: x_def field_simps)
  have "linear_to_srgb (srgb_to_linear c) = \<lfloor>min 255 (max 0 (real_of_int c / 255 * 255 + 0.5))\<rfloor>"
    unfolding lin linear_to_srgb_def Let_def using b inv out by simp
  also have "\<dots> = \<lfloor>min 255 (real_of_int c + 1/2)\<rfloor>" using c1 by simp
  also have "\<dots> = c"
  proof (cases "c = 255")
    case True then show ?thesis by simp
  next
    case False
    then have "c \<le> 254" using assms by simp
    then have "real_of_int c \<le> 254" by simp
    then have "min 255 (real_of_int c + 1/2) = real_of_int c + 1/2" by simp
    moreover have "\<lfloor>real_of_int c + 1/2\<rfloor> = c" by linarith
    ultimately show ?thesis by simp
  qed
  finally show ?thesis .
qed

lemma round_trip_exact_arithmetic:
  "0 \<le> c \<Longrightarrow> c \<le> 255 \<Longrightarrow> linear_to_srgb (srgb_to_linear c) = c"
  using round_trip_linear_branch [of c] round_trip_power_branch [of c] by linarith

subsection \<open>The scenario\<close>

lemma size_solid_red: "size_of solid_red = (2, 2)"
  by (simp add: solid_red_def size_of_def)

lemma linear_to_srgb_255: "linear_to_srgb (srgb_to_linear 255) = 255"
  by (simp add: linear_to_srgb_def srgb_to_linear_def)

lemma linear_to_srgb_0: "linear_to_srgb (srgb_to_linear 0) = 0"
  by (simp add: linear_to_srgb_def srgb_to_linear_def)

lemma resize_linear_red: "resize_linear W k solid_red 2 2 = Inr solid_red"
  by (simp add: resize_linear_def resize_f_def size_of_def solid_red_def RED_def channel_def
        bindE_def stack3_def linear_to_srgb_255 linear_to_srgb_0)

lemma resize_red: "resize_with_optimal_filter W solid_red 2 2 method = Inr solid_red"
  by (simp add: resize_with_optimal_filter_def resize_linear_red resize_rgb_def size_solid_red)

lemma upt_2: "[0..<2] = [0, 1]"
  by (simp add: upt_rec)

lemma cell_rows_red:
  "cell_rows solid_red True upper_half char_full use_csi =
     Inr ([[ansi_fg_bg RED RED upper_half use_csi, ansi_fg_bg RED RED upper_half use_csi]], 1)"
  by (simp add: cell_rows_def size_solid_red half_block_rows_def bindE_def getpixel_def upt_2)
     (simp add: solid_red_def)

lemma height_red: "target_height_chars 2 2 2 (Fin 2) = Inr 1"
  by (simp add: height_defs fl64_small_integers py_round_def)

lemma render_red:
  assumes "image_open W (p_image_path opts) = Inr solid_red"
    and "p_width opts = 2" and "p_half_block opts" and "p_cell_aspect opts = Fin 2"
    and "p_denoise opts = 0" and "p_saturation opts = 1" and "p_contrast opts = 1"
    and "p_sharpen opts = ''none''"
  shows "render W opts =
     Inr ([[ansi_fg_bg RED RED (p_upper_half opts) (p_use_csi opts),
            ansi_fg_bg RED RED (p_upper_half opts) (p_use_csi opts)]], 1, 2, 2)"
  using assms
  by (simp add: render_def bindE_def size_solid_red height_red target_h_px_def resize_red
        denoise_step_def color_step_def sharpen_step_def cell_rows_red)

lemma display_red:
  assumes "path_exists W (p_image_path opts)"
    and "image_open W (p_image_path opts) = Inr solid_red"
    and "p_width opts = 2" and "p_half_block opts" and "p_cell_aspect opts = Fin 2"
    and "p_denoise opts = 0" and "p_saturation opts = 1" and "p_contrast opts = 1"
    and "p_sharpen opts = ''none''"
    and "p_output_file opts = None" and "p_output_format opts = ''auto''"
  shows "image_to_verilog_display W opts =
     ([Print (ansi_fg_bg RED RED (p_upper_half opts) (p_use_csi opts) @
              ansi_fg_bg RED RED (p_upper_half opts) (p_use_csi opts))], True)"
  using assms render_red [of W opts]
  by (simp add: image_to_verilog_display_def bindIO_def liftE_def emit_def
        resolve_output_format_def truthy_def print_def)

lemma red_scenario:
  "path_exists red_world (p_image_path red_options)"
  "image_open red_world (p_image_path red_options) = Inr solid_red"
  "p_width red_options = 2" "p_half_block red_options" "p_cell_aspect red_options = Fin 2"
  "p_denoise red_options = 0" "p_saturation red_options = 1" "p_contrast red_options = 1"
  "p_sharpen red_options = ''none''" "p_output_file red_options = None"
  "p_output_format red_options = ''auto''" "p_upper_half red_options" "p_use_csi red_options"
  by (simp_all add: red_world_def red_options_def)

lemma red_cell_nonempty: "ansi_fg_bg RED RED u c \<noteq> []"
  by (simp add: ansi_fg_bg_def RED_def CSI_def)

text \<open>
  Claim C9, as amended. For a 2 by 2 image of pure red, requested width 2, half-block
  mode, cell aspect 2, no denoising, saturation and contrast 1 and no sharpening, whatever
  the resize method: the pipeline produces exactly one row, and the row holds two cells,
  one for each of the two columns; in each cell the top and the bottom colour are pure
  red. Printed to the standard output, this is one line (the two cells joined).
\<close>

theorem solid_red_renders_one_line_of_two_cells:
  assumes "path_exists W (p_image_path opts)"
    and "image_open W (p_image_path opts) = Inr solid_red"
    and "p_width opts = 2" and "p_half_block opts" and "p_cell_aspect opts = Fin 2"
    and "p_denoise opts = 0" and "p_saturation opts = 1" and "p_contrast opts = 1"
    and "p_sharpen opts = ''none''"
    and "p_output_file opts = None" and "p_output_format opts = ''auto''"
  shows "render W opts =
       Inr ([[ansi_fg_bg RED RED (p_upper_half opts) (p_use_csi opts),
              ansi_fg_bg RED RED (p_upper_half opts) (p_use_csi opts)]], 1, 2, 2)
     \<and> image_to_verilog_display W opts =
       ([Print (ansi_fg_bg RED RED (p_upper_half opts) (p_use_csi opts) @
                ansi_fg_bg RED RED (p_upper_half opts) (p_use_csi opts))], True)"
  using assms render_red [of W opts] display_red [of W opts] by simp

theorem solid_red_renders_one_line_of_two_cells_witness:
  "path_exists red_world (p_image_path red_options)
   \<and> image_open red_world (p_image_path red_options) = Inr solid_red
   \<and> p_width red_options = 2 \<and> p_half_block red_options \<and> p_cell_aspect red_options = Fin 2
   \<and> p_denoise red_options = 0 \<and> p_saturation red_options = 1 \<and> p_contrast red_options = 1
   \<and> p_sharpen red_options = ''none'' \<and> p_output_file red_options = None
   \<and> p_output_format red_options = ''auto''
   \<and> render red_world red_options =
       Inr ([[ansi_fg_bg RED RED True True, ansi_fg_bg RED RED True True]], 1, 2, 2)
   \<and> image_to_verilog_display red_world red_options =
       ([Print (ansi_fg_bg RED RED True True @ ansi_fg_bg RED RED True True)], True)"
  using solid_red_renders_one_line_of_two_cells [of red_world red_options] red_scenario
  by simp

text \<open>
  The claim as stated, one line holding one cell, fails in the scenario: the row has two
  cells and the line is not a single cell.
\<close>

theorem solid_red_line_is_not_one_cell:
  "render red_world red_options =
     Inr ([[ansi_fg_bg RED RED True True, ansi_fg_bg RED RED True True]], 1, 2, 2)
   \<and> render red_world red_options \<noteq> Inr ([[ansi_fg_bg RED RED True True]], 1, 2, 2)
   \<and> image_to_verilog_display red_world red_options
       \<noteq> ([Print (ansi_fg_bg RED RED True True)], True)"
  using render_red [of red_world red_options] display_red [of red_world red_options]
    red_scenario red_cell_nonempty [of True True]
  by simp

end
